theory Spec2Isabelle
  imports Main
begin

section \<open>The timeline engine of use-timeline (src/src/index.ts, src/src/utils.ts)\<close>

text \<open>
  The engine is a set of pure functions over \<open>UndoableState\<close>. The embedding follows
  the TypeScript source function by function. Conventions:

  \<^item> the source's leading underscores are dropped (\<open>_undoTo\<close> is \<open>undoTo\<close>), and
    \<open>_insert\<close> is \<open>insert_t\<close> because \<open>insert\<close> is a constant of HOL;
  \<^item> a JavaScript \<open>number\<close> used as an index or a size is an \<open>int\<close>: the model
    covers integer-valued numbers, negative ones included, and leaves out fractions,
    NaN and the infinities;
  \<^item> a runtime value is a \<open>jsval\<close>: \<open>undefined\<close>, an opaque datum of the state's
    value type, or a callable of no argument;
  \<^item> an argument that may be omitted or \<open>undefined\<close> is an \<open>option\<close>.
\<close>

subsection \<open>Runtime values and arrays\<close>

datatype 'a jsval = Undefined | Data 'a | Fn "unit \<Rightarrow> 'a jsval"

text \<open>\<open>isFunction\<close> of utils.ts: truthy exactly for callables.\<close>

fun isFunction :: "'a jsval \<Rightarrow> bool" where
  "isFunction (Fn f) = True"
| "isFunction v = False"

text \<open>The call expression \<open>v()\<close>; it is only evaluated under \<open>isFunction v\<close>.\<close>

fun call :: "'a jsval \<Rightarrow> 'a jsval" where
  "call (Fn f) = f ()"
| "call v = Undefined"

text \<open>
  \<open>Array.prototype.slice(start, end)\<close>: a negative bound counts from the end, and both
  bounds are clamped to the array.
\<close>

definition array_slice :: "'b list \<Rightarrow> int \<Rightarrow> int \<Rightarrow> 'b list" where
  "array_slice xs start fin =
     (let len = int (length xs);
          k = (if start < 0 then max (len + start) 0 else min start len);
          final = (if fin < 0 then max (len + fin) 0 else min fin len)
      in take (nat (final - k)) (drop (nat k) xs))"

text \<open>The element read \<open>xs[i]\<close>: \<open>undefined\<close> outside the array.\<close>

definition array_get :: "'a jsval list \<Rightarrow> int \<Rightarrow> 'a jsval" where
  "array_get xs i = (if 0 \<le> i \<and> i < int (length xs) then xs ! nat i else Undefined)"

subsection \<open>Data model\<close>

record 'a UndoableState =
  timeline :: "'a jsval list"
  index :: int

text \<open>
  \<open>TimeSlice\<close> of the source has the fields \<open>timeSlice\<close> and \<open>index\<close>; the second
  is \<open>sliceIndex\<close> here, since \<open>index\<close> is the field of \<open>UndoableState\<close>.
\<close>

record 'a TimeSlice =
  timeSlice :: "'a jsval"
  sliceIndex :: int

definition newState :: "'a jsval list \<Rightarrow> int \<Rightarrow> 'a UndoableState" where
  "newState tline i = \<lparr>timeline = tline, index = i\<rparr>"

subsection \<open>Operations\<close>

definition canUndoTo :: "'a UndoableState \<Rightarrow> int \<Rightarrow> bool" where
  "canUndoTo state to = (index state > 0 \<and> to < index state)"

definition canRedoTo :: "'a UndoableState \<Rightarrow> int \<Rightarrow> bool" where
  "canRedoTo state to = (to < int (length (timeline state)) \<and> to > index state)"

definition getPast :: "'a UndoableState \<Rightarrow> 'a TimeSlice list" where
  "getPast state =
     map (\<lambda>(i, ts). \<lparr>timeSlice = ts, sliceIndex = int i\<rparr>)
       (enumerate 0 (array_slice (timeline state) 0 (index state)))"

definition getFuture :: "'a UndoableState \<Rightarrow> 'a TimeSlice list" where
  "getFuture state =
     map (\<lambda>(i, ts). \<lparr>timeSlice = ts, sliceIndex = index state + 1 + int i\<rparr>)
       (enumerate 0
         (array_slice (timeline state) (index state + 1) (int (length (timeline state)))))"

text \<open>
  \<open>_insert(state, timeSlice, maxTimelineSize = 5)\<close>: the third argument is \<open>None\<close>
  when it is omitted or \<open>undefined\<close>, and then the parameter's default 5 applies.
\<close>

definition insert_t :: "'a UndoableState \<Rightarrow> 'a jsval \<Rightarrow> int option \<Rightarrow> 'a UndoableState" where
  "insert_t state ts maxArg =
     (let maxTimelineSize = (case maxArg of None \<Rightarrow> 5 | Some m \<Rightarrow> m);
          startIndex = (if index state = maxTimelineSize then 1 else 0);
          past = array_slice (timeline state) startIndex (index state + 1);
          newTimeline = past @ [ts];
          newIndex = (if index state = maxTimelineSize then index state else index state + 1)
      in newState newTimeline newIndex)"

definition undoTo :: "'a UndoableState \<Rightarrow> int \<Rightarrow> 'a UndoableState" where
  "undoTo state to = (if \<not> canUndoTo state to then state else newState (timeline state) to)"

definition redoTo :: "'a UndoableState \<Rightarrow> int \<Rightarrow> 'a UndoableState" where
  "redoTo state to = (if \<not> canRedoTo state to then state else newState (timeline state) to)"

definition jumpTo :: "'a UndoableState \<Rightarrow> int \<Rightarrow> 'a UndoableState" where
  "jumpTo state to =
     (if to < 0 \<or> to > int (length (timeline state)) - 1 then state
      else newState (timeline state) to)"

definition getCurrentTimeSlice :: "'a UndoableState \<Rightarrow> 'a jsval" where
  "getCurrentTimeSlice state = array_get (timeline state) (index state)"

definition clearTimeline :: "'a UndoableState \<Rightarrow> 'a UndoableState" where
  "clearTimeline state = (let currentTimeSlice = getCurrentTimeSlice state
                          in newState [currentTimeSlice] 0)"

text \<open>
  \<open>_initState\<close>: the local starts \<open>undefined\<close>, receives the result of the call when
  the argument is callable, and is then assigned the argument itself: the second
  assignment of the source is not in an \<open>else\<close> branch.
\<close>

definition initState :: "'a jsval \<Rightarrow> 'a UndoableState" where
  "initState initialValue =
     (let initialTimeSlice = Undefined;
          initialTimeSlice = (if isFunction initialValue then call initialValue
                              else initialTimeSlice);
          initialTimeSlice = initialValue
      in newState [initialTimeSlice] 0)"

subsection \<open>The hook's configuration and callbacks\<close>

text \<open>
  \<open>Options = { maxTimelineSize?: number }\<close>: the property is absent, or present with
  a number or with \<open>undefined\<close> (\<open>Present None\<close>).
\<close>

datatype 'v property = Absent | Present 'v

record Options =
  maxTimelineSize :: "int option property"

definition defaultOptions :: Options where
  "defaultOptions = \<lparr>maxTimelineSize = Present (Some 20)\<rparr>"

text \<open>
  The object spread \<open>{ ...defaultOptions, ...options }\<close>: every own property of
  \<open>options\<close> overrides, whatever its value; spreading \<open>undefined\<close> adds nothing.
\<close>

definition spread :: "Options \<Rightarrow> Options option \<Rightarrow> Options" where
  "spread base over =
     (case over of
        None \<Rightarrow> base
      | Some opts \<Rightarrow>
          (case maxTimelineSize opts of
             Absent \<Rightarrow> base
           | Present v \<Rightarrow> \<lparr>maxTimelineSize = Present v\<rparr>))"

text \<open>The destructured \<open>maxTimelineSize\<close> of \<open>useTimeline\<close>.\<close>

definition useTimeline_maxTimelineSize :: "Options option \<Rightarrow> int option" where
  "useTimeline_maxTimelineSize options =
     (case maxTimelineSize (spread defaultOptions options) of
        Absent \<Rightarrow> None
      | Present v \<Rightarrow> v)"

text \<open>
  \<open>SetStateArg\<close>: a value, or an updater applied to the current time slice. The
  functions below are the reducers that the hook hands to React's state setter.
\<close>

datatype 'a SetStateArg = Value "'a jsval" | Updater "'a jsval \<Rightarrow> 'a jsval"

fun setState :: "Options option \<Rightarrow> 'a SetStateArg \<Rightarrow> 'a UndoableState \<Rightarrow> 'a UndoableState" where
  "setState options (Updater u) s =
     insert_t s (u (getCurrentTimeSlice s)) (useTimeline_maxTimelineSize options)"
| "setState options (Value v) s =
     (if isFunction v then insert_t s (call v) (useTimeline_maxTimelineSize options)
      else insert_t s v (useTimeline_maxTimelineSize options))"

definition undo :: "'a UndoableState \<Rightarrow> 'a UndoableState" where
  "undo s = undoTo s (index s - 1)"

definition redo :: "'a UndoableState \<Rightarrow> 'a UndoableState" where
  "redo s = redoTo s (index s + 1)"

subsection \<open>The invariants of the data model, and sequences of operations\<close>

definition invariant :: "'a UndoableState \<Rightarrow> bool" where
  "invariant s = (timeline s \<noteq> [] \<and> 0 \<le> index s \<and> index s < int (length (timeline s)))"

datatype 'a operation =
    Insert "'a jsval" int
  | UndoTo int
  | RedoTo int
  | JumpTo int
  | Clear

fun apply_operation :: "'a UndoableState \<Rightarrow> 'a operation \<Rightarrow> 'a UndoableState" where
  "apply_operation s (Insert v m) = insert_t s v (Some m)"
| "apply_operation s (UndoTo t) = undoTo s t"
| "apply_operation s (RedoTo t) = redoTo s t"
| "apply_operation s (JumpTo t) = jumpTo s t"
| "apply_operation s Clear = clearTimeline s"

definition run :: "'a UndoableState \<Rightarrow> 'a operation list \<Rightarrow> 'a UndoableState" where
  "run s ops = foldl apply_operation s ops"

text \<open>The arguments the first claim allows: a positive size for every insertion.\<close>

fun positive_size :: "'a operation \<Rightarrow> bool" where
  "positive_size (Insert v m) = (0 < m)"
| "positive_size opn = True"

text \<open>The same, and no negative target for \<open>undoTo\<close>.\<close>

fun admissible :: "'a operation \<Rightarrow> bool" where
  "admissible (Insert v m) = (0 < m)"
| "admissible (UndoTo t) = (0 \<le> t)"
| "admissible opn = True"

section \<open>Auxiliary facts\<close>

subsection \<open>Array slices\<close>

lemma length_array_slice:
  "0 \<le> start \<Longrightarrow> start \<le> fin \<Longrightarrow> fin \<le> int (length xs) \<Longrightarrow>
   length (array_slice xs start fin) = nat (fin - start)"
  unfolding array_slice_def Let_def by (simp add: min_def) arith

lemma array_slice_to_end:
  "int (length xs) \<le> start \<Longrightarrow> array_slice xs start (int (length xs)) = []"
  by (simp add: array_slice_def Let_def min_def)

subsection \<open>Each operation keeps the invariants\<close>

lemma initState_eq: "initState v = \<lparr>timeline = [v], index = 0\<rparr>"
  by (simp add: initState_def newState_def)

lemma invariant_initState: "invariant (initState v)"
  by (simp add: invariant_def initState_def newState_def)

lemma invariant_insert_t: "invariant s \<Longrightarrow> invariant (insert_t s v m)"
  unfolding invariant_def insert_t_def Let_def newState_def
  by (simp add: length_array_slice)

lemma invariant_undoTo: "invariant s \<Longrightarrow> 0 \<le> t \<Longrightarrow> invariant (undoTo s t)"
  by (auto simp add: invariant_def undoTo_def canUndoTo_def newState_def)

lemma invariant_redoTo: "invariant s \<Longrightarrow> invariant (redoTo s t)"
  by (auto simp add: invariant_def redoTo_def canRedoTo_def newState_def)

lemma invariant_jumpTo: "invariant s \<Longrightarrow> invariant (jumpTo s t)"
  by (auto simp add: invariant_def jumpTo_def newState_def)

lemma invariant_clearTimeline: "invariant (clearTimeline s)"
  by (simp add: invariant_def clearTimeline_def newState_def)

text \<open>
  The hook's one-step callbacks need no side condition: \<open>undo\<close> asks for
  \<open>index - 1\<close>, which the guard \<open>index > 0\<close> of \<open>canUndoTo\<close> keeps non-negative.
\<close>

lemma invariant_undo: "invariant s \<Longrightarrow> invariant (undo s)"
  by (auto simp add: invariant_def undo_def undoTo_def canUndoTo_def newState_def)

lemma invariant_redo: "invariant s \<Longrightarrow> invariant (redo s)"
  by (simp add: redo_def invariant_redoTo)

lemma invariant_apply_operation:
  "invariant s \<Longrightarrow> admissible opn \<Longrightarrow> invariant (apply_operation s opn)"
  by (cases opn)
     (simp_all add: invariant_insert_t invariant_undoTo invariant_redoTo invariant_jumpTo
        invariant_clearTimeline)

lemma invariant_foldl:
  "invariant s \<Longrightarrow> \<forall>opn \<in> set ops. admissible opn \<Longrightarrow> invariant (foldl apply_operation s ops)"
  by (induction ops arbitrary: s) (simp_all add: invariant_apply_operation)

section \<open>Properties of the specification\<close>

subsection \<open>C1: preservation of the invariants\<close>

text \<open>
  C1, as the specification states it, fails: the guard of \<open>undoTo\<close> bounds the
  target from above only, so a negative target is accepted whenever \<open>index > 0\<close>.
  After \<open>initialize(0)\<close> and \<open>insert(_, 1, 5)\<close> the state is \<open>{[0, 1], 1}\<close>, and
  \<open>undoTo(_, -1)\<close> returns \<open>{[0, 1], -1}\<close>, whose index is out of range.
\<close>

theorem invariant_preserved_counterexample:
  "list_all positive_size [Insert (Data (1::nat)) 5, UndoTo (- 1)] \<and>
   \<not> invariant (run (initState (Data 0)) [Insert (Data (1::nat)) 5, UndoTo (- 1)])"
  by (simp add: run_def initState_def insert_t_def array_slice_def undoTo_def canUndoTo_def
      newState_def invariant_def)

text \<open>
  C1 (amended): for every sequence of the operations insert, undoTo, redoTo, jumpTo and
  clear applied to a state produced by initialize, with any value and a positive
  maxTimelineSize for insert, any integer target for redoTo and jumpTo, and any
  non-negative integer target for undoTo, the state after every call (after each prefix of the sequence)
  has a non-empty timeline and \<open>0 <= index < length(timeline)\<close>.
\<close>

theorem invariant_preserved:
  assumes "list_all admissible ops"
  shows "invariant (run (initState v) (take n ops))"
proof -
  have "\<forall>opn \<in> set (take n ops). admissible opn"
    using assms by (auto simp add: list_all_iff dest: in_set_takeD)
  then show ?thesis
    unfolding run_def by (rule invariant_foldl [OF invariant_initState])
qed

text \<open>
  The amended C1 at a sequence that uses all five operations, with the state it
  reaches before the final clear.
\<close>

theorem invariant_preserved_witness:
  "list_all admissible
     [Insert (Data (1::nat)) 2, Insert (Data 2) 2, UndoTo 0, RedoTo 1, Insert (Data 3) 2,
      Insert (Data 4) 2, JumpTo 1, Clear] \<and>
   invariant (run (initState (Data 0))
     (take 8 [Insert (Data (1::nat)) 2, Insert (Data 2) 2, UndoTo 0, RedoTo 1, Insert (Data 3) 2,
      Insert (Data 4) 2, JumpTo 1, Clear])) \<and>
   run (initState (Data 0))
     (take 7 [Insert (Data (1::nat)) 2, Insert (Data 2) 2, UndoTo 0, RedoTo 1, Insert (Data 3) 2,
      Insert (Data 4) 2, JumpTo 1, Clear]) = \<lparr>timeline = [Data 1, Data 3, Data 4], index = 1\<rparr>"
proof -
  have h: "list_all admissible
     [Insert (Data (1::nat)) 2, Insert (Data 2) 2, UndoTo 0, RedoTo 1, Insert (Data 3) 2,
      Insert (Data 4) 2, JumpTo 1, Clear]" by simp
  have r: "run (initState (Data 0))
     (take 7 [Insert (Data (1::nat)) 2, Insert (Data 2) 2, UndoTo 0, RedoTo 1, Insert (Data 3) 2,
      Insert (Data 4) 2, JumpTo 1, Clear]) = \<lparr>timeline = [Data 1, Data 3, Data 4], index = 1\<rparr>"
    by (simp add: run_def initState_def insert_t_def array_slice_def undoTo_def canUndoTo_def
      redoTo_def canRedoTo_def jumpTo_def newState_def)
  show ?thesis using h r invariant_preserved [OF h, of "Data 0" 8] by simp
qed

subsection \<open>C2: initialization\<close>

text \<open>
  C2: initialize(f) for a callable f should produce \<open>{timeline: [f()], index: 0}\<close>.
  The source calls f and then overwrites the result with f itself, so the timeline
  holds the callable: for the constant function returning 7 the state is
  \<open>{timeline: [f], index: 0}\<close> and not \<open>{timeline: [7], index: 0}\<close>. (For a value that
  is not callable the state is \<open>{timeline: [v], index: 0}\<close>, as C2 says.)
\<close>

theorem initState_keeps_callable:
  "initState (Fn (\<lambda>_. Data (7::nat))) = \<lparr>timeline = [Fn (\<lambda>_. Data 7)], index = 0\<rparr> \<and>
   initState (Fn (\<lambda>_. Data (7::nat))) \<noteq> \<lparr>timeline = [Data 7], index = 0\<rparr> \<and>
   call (Fn (\<lambda>_. Data (7::nat))) = Data 7"
  by (simp add: initState_def newState_def)

subsection \<open>C3: the cap on insertion\<close>

text \<open>
  C3: five insertions with maxTimelineSize = 2 after initialize(v0) should never give
  a timeline longer than 2. The states after the five insertions are listed below: the
  second insertion already gives three entries, and the timeline stays at three. The
  eviction starts at the third insertion, the first one that finds
  \<open>index = maxTimelineSize\<close>, and removes v0, v1, v2 in insertion order.
\<close>

theorem insert_cap_trace:
  "map (\<lambda>n. run (initState v0)
          (take n [Insert v1 2, Insert v2 2, Insert v3 2, Insert v4 2, Insert v5 2]))
     [1, 2, 3, 4, 5] =
   [\<lparr>timeline = [v0, v1], index = 1\<rparr>,
    \<lparr>timeline = [v0, v1, v2], index = 2\<rparr>,
    \<lparr>timeline = [v1, v2, v3], index = 2\<rparr>,
    \<lparr>timeline = [v2, v3, v4], index = 2\<rparr>,
    \<lparr>timeline = [v3, v4, v5], index = 2\<rparr>]"
  by (simp add: run_def initState_def insert_t_def array_slice_def newState_def)

subsection \<open>C4: the default maxTimelineSize\<close>

text \<open>
  Where the hook is called without options, or with options that lack the property,
  the spread over \<open>defaultOptions\<close> yields 20 and every insertion that \<open>setState\<close>
  performs is an insertion with maxTimelineSize = 20.
\<close>

lemma absent_option_uses_twenty:
  assumes "options = None \<or> options = Some \<lparr>maxTimelineSize = Absent\<rparr>"
  shows "useTimeline_maxTimelineSize options = Some 20 \<and>
         setState options (Updater u) s = insert_t s (u (getCurrentTimeSlice s)) (Some 20) \<and>
         setState options (Value v) s =
           (if isFunction v then insert_t s (call v) (Some 20) else insert_t s v (Some 20))"
proof -
  have "useTimeline_maxTimelineSize options = Some 20"
    using assms by (auto simp add: useTimeline_maxTimelineSize_def spread_def defaultOptions_def)
  then show ?thesis by simp
qed

text \<open>
  Where the options carry the property with the value \<open>undefined\<close>, the spread copies
  it over the default 20, and \<open>_insert\<close> falls back on the default 5 of its own
  parameter, as it does when it is called without the third argument.
\<close>

lemma undefined_option_uses_five:
  "useTimeline_maxTimelineSize (Some \<lparr>maxTimelineSize = Present None\<rparr>) = None \<and>
   insert_t s v None = insert_t s v (Some 5)"
  by (simp add: useTimeline_maxTimelineSize_def spread_def insert_t_def)

text \<open>
  C4: a caller who supplies no maxTimelineSize should get insertions with
  maxTimelineSize = 20. The hook called as \<open>useTimeline(0, {maxTimelineSize: undefined})\<close>
  and followed by \<open>setState(1)\<close>, ..., \<open>setState(6)\<close> ends in the state
  \<open>{[1, 2, 3, 4, 5, 6], 5}\<close>: the sixth insertion finds \<open>index = 5\<close> and evicts 0, as
  with maxTimelineSize = 5. With maxTimelineSize = 20 the same calls end in
  \<open>{[0, 1, 2, 3, 4, 5, 6], 6}\<close>, and so does \<open>_insert\<close> when it is given 20 instead of
  no third argument.
\<close>

theorem default_maxTimelineSize_undefined:
  "foldl (\<lambda>s v. setState (Some \<lparr>maxTimelineSize = Present None\<rparr>) (Value v) s)
     (initState (Data (0::nat))) [Data 1, Data 2, Data 3, Data 4, Data 5, Data 6] =
     \<lparr>timeline = [Data 1, Data 2, Data 3, Data 4, Data 5, Data 6], index = 5\<rparr> \<and>
   foldl (\<lambda>s v. setState (Some \<lparr>maxTimelineSize = Present (Some 20)\<rparr>) (Value v) s)
     (initState (Data (0::nat))) [Data 1, Data 2, Data 3, Data 4, Data 5, Data 6] =
     \<lparr>timeline = [Data 0, Data 1, Data 2, Data 3, Data 4, Data 5, Data 6], index = 6\<rparr> \<and>
   foldl (\<lambda>s v. setState None (Value v) s)
     (initState (Data (0::nat))) [Data 1, Data 2, Data 3, Data 4, Data 5, Data 6] =
     \<lparr>timeline = [Data 0, Data 1, Data 2, Data 3, Data 4, Data 5, Data 6], index = 6\<rparr> \<and>
   insert_t \<lparr>timeline = [Data (0::nat), Data 1, Data 2, Data 3, Data 4, Data 5], index = 5\<rparr>
     (Data 6) None =
     \<lparr>timeline = [Data 1, Data 2, Data 3, Data 4, Data 5, Data 6], index = 5\<rparr> \<and>
   insert_t \<lparr>timeline = [Data (0::nat), Data 1, Data 2, Data 3, Data 4, Data 5], index = 5\<rparr>
     (Data 6) (Some 20) =
     \<lparr>timeline = [Data 0, Data 1, Data 2, Data 3, Data 4, Data 5, Data 6], index = 6\<rparr>"
  by (simp add: useTimeline_maxTimelineSize_def spread_def defaultOptions_def initState_def
      insert_t_def array_slice_def newState_def)

subsection \<open>C5: undoTo\<close>

text \<open>
  C5: undoTo(state, t) returns \<open>{timeline: state.timeline, index: t}\<close>, a state
  different from the input, exactly when \<open>state.index > 0\<close> and \<open>t < state.index\<close>;
  in every other case it returns the input state. \<open>undoTo\<close> is a total function into
  states: no path of the source throws or returns an error.
\<close>

theorem undoTo_cases:
  "(0 < index s \<and> t < index s \<longrightarrow>
      undoTo s t = \<lparr>timeline = timeline s, index = t\<rparr> \<and> undoTo s t \<noteq> s) \<and>
   (\<not> (0 < index s \<and> t < index s) \<longrightarrow> undoTo s t = s)"
  by (cases s) (auto simp add: undoTo_def canUndoTo_def newState_def)

text \<open>
  C5 at an accepted target, at a target equal to the index, and at the first state
  of a timeline.
\<close>

theorem undoTo_cases_witness:
  "undoTo \<lparr>timeline = [Data (0::nat), Data 1, Data 2], index = 2\<rparr> 0 =
     \<lparr>timeline = [Data 0, Data 1, Data 2], index = 0\<rparr> \<and>
   undoTo \<lparr>timeline = [Data (0::nat), Data 1, Data 2], index = 2\<rparr> 2 =
     \<lparr>timeline = [Data 0, Data 1, Data 2], index = 2\<rparr> \<and>
   undoTo \<lparr>timeline = [Data (0::nat), Data 1, Data 2], index = 0\<rparr> (- 1) =
     \<lparr>timeline = [Data 0, Data 1, Data 2], index = 0\<rparr>"
  using undoTo_cases [of "\<lparr>timeline = [Data (0::nat), Data 1, Data 2], index = 2\<rparr>" 0]
    undoTo_cases [of "\<lparr>timeline = [Data (0::nat), Data 1, Data 2], index = 2\<rparr>" 2]
    undoTo_cases [of "\<lparr>timeline = [Data (0::nat), Data 1, Data 2], index = 0\<rparr>" "- 1"]
  by simp

subsection \<open>C6: jumpTo\<close>

text \<open>
  C6: for a state satisfying the invariants, jumpTo(state, -1) and
  jumpTo(state, length(timeline)) return the input state, and for every k with
  \<open>0 <= k < length(timeline)\<close>, jumpTo(state, k) returns the same timeline with index
  k, whether k is before or after the current index.
\<close>

theorem jumpTo_bounds:
  assumes "invariant s"
  shows "jumpTo s (- 1) = s \<and>
         jumpTo s (int (length (timeline s))) = s \<and>
         (\<forall>k. 0 \<le> k \<and> k < int (length (timeline s)) \<longrightarrow>
              jumpTo s k = \<lparr>timeline = timeline s, index = k\<rparr>)"
  by (simp add: jumpTo_def newState_def)

text \<open>
  C6 at a state with three entries and index 1: both no-ops, a jump back and a jump
  forward.
\<close>

theorem jumpTo_bounds_witness:
  "invariant \<lparr>timeline = [Data (0::nat), Data 1, Data 2], index = 1\<rparr> \<and>
   jumpTo \<lparr>timeline = [Data (0::nat), Data 1, Data 2], index = 1\<rparr> (- 1) =
     \<lparr>timeline = [Data 0, Data 1, Data 2], index = 1\<rparr> \<and>
   jumpTo \<lparr>timeline = [Data (0::nat), Data 1, Data 2], index = 1\<rparr> 3 =
     \<lparr>timeline = [Data 0, Data 1, Data 2], index = 1\<rparr> \<and>
   jumpTo \<lparr>timeline = [Data (0::nat), Data 1, Data 2], index = 1\<rparr> 0 =
     \<lparr>timeline = [Data 0, Data 1, Data 2], index = 0\<rparr> \<and>
   jumpTo \<lparr>timeline = [Data (0::nat), Data 1, Data 2], index = 1\<rparr> 2 =
     \<lparr>timeline = [Data 0, Data 1, Data 2], index = 2\<rparr>"
proof -
  have h: "invariant \<lparr>timeline = [Data (0::nat), Data 1, Data 2], index = 1\<rparr>"
    by (simp add: invariant_def)
  show ?thesis using h jumpTo_bounds [OF h] by simp
qed

subsection \<open>C7: insertion erases the future\<close>

text \<open>
  C7: for a state satisfying the invariants, every value v and every positive
  maxTimelineSize, the state returned by insert has an empty future, its index is the
  last position of its timeline, the entry there is v, and the entries before v come
  from the old timeline up to the old index only.
\<close>

theorem insert_erases_future:
  assumes "invariant s" and "0 < m"
  shows "getFuture (insert_t s v (Some m)) = [] \<and>
         index (insert_t s v (Some m)) = int (length (timeline (insert_t s v (Some m)))) - 1 \<and>
         getCurrentTimeSlice (insert_t s v (Some m)) = v \<and>
         timeline (insert_t s v (Some m)) =
           drop (if index s = m then 1 else 0) (take (nat (index s) + 1) (timeline s)) @ [v]"
proof -
  let ?s' = "insert_t s v (Some m)"
  let ?k = "if index s = m then 1 else (0::int)"
  have b: "0 \<le> index s" "index s < int (length (timeline s))"
    using assms(1) by (simp_all add: invariant_def)
  have tl: "timeline ?s' = array_slice (timeline s) ?k (index s + 1) @ [v]"
    by (simp add: insert_t_def newState_def)
  have ix: "index ?s' = index s + 1 - ?k"
    by (simp add: insert_t_def newState_def)
  have len: "length (array_slice (timeline s) ?k (index s + 1)) = nat (index s + 1 - ?k)"
    using b assms(2) by (intro length_array_slice) auto
  have last_ix: "index ?s' = int (length (timeline ?s')) - 1"
    using b assms(2) by (simp add: tl ix len)
  have fut: "getFuture ?s' = []"
    unfolding getFuture_def using last_ix by (simp add: array_slice_to_end)
  have cur: "getCurrentTimeSlice ?s' = v"
    using b assms(2) by (simp add: getCurrentTimeSlice_def array_get_def tl ix len nth_append)
  have shape: "array_slice (timeline s) ?k (index s + 1) =
      drop (if index s = m then 1 else 0) (take (nat (index s) + 1) (timeline s))"
    using b assms(2) by (auto simp add: array_slice_def Let_def min_def drop_take nat_add_distrib)
  show ?thesis using fut last_ix cur tl shape by simp
qed

text \<open>
  C7 at a state with one future entry, which the insertion discards.
\<close>

theorem insert_erases_future_witness:
  "invariant \<lparr>timeline = [Data (0::nat), Data 1, Data 2], index = 1\<rparr> \<and> (0::int) < 5 \<and>
   getFuture (insert_t \<lparr>timeline = [Data (0::nat), Data 1, Data 2], index = 1\<rparr> (Data 9) (Some 5)) = [] \<and>
   timeline (insert_t \<lparr>timeline = [Data (0::nat), Data 1, Data 2], index = 1\<rparr> (Data 9) (Some 5)) =
     [Data 0, Data 1, Data 9]"
proof -
  have h: "invariant \<lparr>timeline = [Data (0::nat), Data 1, Data 2], index = 1\<rparr>"
    by (simp add: invariant_def)
  have m: "(0::int) < 5" by simp
  show ?thesis using h insert_erases_future [OF h m, of "Data 9"] by simp
qed

subsection \<open>C8: undo and redo round trip\<close>

text \<open>
  C8: for a state with at least two entries and the index at the last position,
  undoTo(state, index - 1) moves the index one step back, and redoTo on the result with
  target result.index + 1 returns the original state, hence the original current value.
\<close>

theorem undo_redo_roundtrip:
  assumes "2 \<le> length (timeline s)" and "index s = int (length (timeline s)) - 1"
  shows "index (undoTo s (index s - 1)) = index s - 1 \<and>
         redoTo (undoTo s (index s - 1)) (index (undoTo s (index s - 1)) + 1) = s \<and>
         getCurrentTimeSlice (redoTo (undoTo s (index s - 1)) (index (undoTo s (index s - 1)) + 1)) =
           getCurrentTimeSlice s"
proof -
  have u: "undoTo s (index s - 1) = newState (timeline s) (index s - 1)"
    using assms by (simp add: undoTo_def canUndoTo_def)
  have r: "redoTo (newState (timeline s) (index s - 1)) (index s) = s"
    using assms by (simp add: redoTo_def canRedoTo_def newState_def)
  show ?thesis using r by (simp add: u) (simp add: newState_def)
qed

text \<open>
  C8 at a state with three entries.
\<close>

theorem undo_redo_roundtrip_witness:
  "(2::nat) \<le> length [Data (0::nat), Data 1, Data 2] \<and>
   redoTo (undoTo \<lparr>timeline = [Data (0::nat), Data 1, Data 2], index = 2\<rparr> 1) 2 =
     \<lparr>timeline = [Data 0, Data 1, Data 2], index = 2\<rparr> \<and>
   getCurrentTimeSlice (redoTo (undoTo \<lparr>timeline = [Data (0::nat), Data 1, Data 2], index = 2\<rparr> 1) 2) =
     Data 2"
proof -
  have a: "2 \<le> length (timeline \<lparr>timeline = [Data (0::nat), Data 1, Data 2], index = 2\<rparr>)"
    by simp
  have b: "index \<lparr>timeline = [Data (0::nat), Data 1, Data 2], index = 2\<rparr> =
           int (length (timeline \<lparr>timeline = [Data (0::nat), Data 1, Data 2], index = 2\<rparr>)) - 1"
    by simp
  have c: "index (undoTo \<lparr>timeline = [Data (0::nat), Data 1, Data 2], index = 2\<rparr> 1) = 1"
    by (simp add: undoTo_def canUndoTo_def newState_def)
  have d: "getCurrentTimeSlice \<lparr>timeline = [Data (0::nat), Data 1, Data 2], index = 2\<rparr> = Data 2"
    by (simp add: getCurrentTimeSlice_def array_get_def)
  show ?thesis using undo_redo_roundtrip [OF a b] c d
    by (simp add: undoTo_def canUndoTo_def redoTo_def canRedoTo_def newState_def)
qed

subsection \<open>C9: clear\<close>

text \<open>
  C9: for a state satisfying the invariants, clear(state) is
  \<open>{timeline: [timeline[index]], index: 0}\<close>, and clear(clear(state)) equals
  clear(state).
\<close>

theorem clear_idempotent:
  assumes "invariant s"
  shows "clearTimeline s = \<lparr>timeline = [timeline s ! nat (index s)], index = 0\<rparr> \<and>
         clearTimeline (clearTimeline s) = clearTimeline s"
  using assms
  by (simp add: clearTimeline_def getCurrentTimeSlice_def array_get_def newState_def invariant_def)

text \<open>
  C9 at a state with a past and a future entry.
\<close>

theorem clear_idempotent_witness:
  "invariant \<lparr>timeline = [Data (0::nat), Data 1, Data 2], index = 1\<rparr> \<and>
   clearTimeline \<lparr>timeline = [Data (0::nat), Data 1, Data 2], index = 1\<rparr> =
     \<lparr>timeline = [Data 1], index = 0\<rparr> \<and>
   clearTimeline (clearTimeline \<lparr>timeline = [Data (0::nat), Data 1, Data 2], index = 1\<rparr>) =
     \<lparr>timeline = [Data 1], index = 0\<rparr>"
proof -
  have h: "invariant \<lparr>timeline = [Data (0::nat), Data 1, Data 2], index = 1\<rparr>"
    by (simp add: invariant_def)
  show ?thesis using h clear_idempotent [OF h]
    by (simp add: clearTimeline_def getCurrentTimeSlice_def array_get_def newState_def)
qed

subsection \<open>C10: redo as a jump\<close>

text \<open>
  C10: for a state satisfying the invariants and every target t with
  \<open>state.index < t < length(timeline)\<close>, redoTo(state, t) returns the same state as
  jumpTo(state, t), namely the same timeline with index t.
\<close>

theorem redoTo_is_jumpTo:
  assumes "invariant s" and "index s < t" and "t < int (length (timeline s))"
  shows "redoTo s t = jumpTo s t \<and> redoTo s t = \<lparr>timeline = timeline s, index = t\<rparr>"
  using assms
  by (simp add: redoTo_def canRedoTo_def jumpTo_def newState_def invariant_def)

text \<open>
  C10 at a redo over two positions.
\<close>

theorem redoTo_is_jumpTo_witness:
  "invariant \<lparr>timeline = [Data (0::nat), Data 1, Data 2], index = 0\<rparr> \<and>
   redoTo \<lparr>timeline = [Data (0::nat), Data 1, Data 2], index = 0\<rparr> 2 =
     jumpTo \<lparr>timeline = [Data (0::nat), Data 1, Data 2], index = 0\<rparr> 2 \<and>
   redoTo \<lparr>timeline = [Data (0::nat), Data 1, Data 2], index = 0\<rparr> 2 =
     \<lparr>timeline = [Data 0, Data 1, Data 2], index = 2\<rparr>"
proof -
  have h: "invariant \<lparr>timeline = [Data (0::nat), Data 1, Data 2], index = 0\<rparr>"
    by (simp add: invariant_def)
  have a: "index \<lparr>timeline = [Data (0::nat), Data 1, Data 2], index = 0\<rparr> < 2" by simp
  have b: "2 < int (length (timeline \<lparr>timeline = [Data (0::nat), Data 1, Data 2], index = 0\<rparr>))"
    by simp
  show ?thesis using h redoTo_is_jumpTo [OF h a b]
    by (simp add: jumpTo_def newState_def)
qed

end
